theory Spec2Isabelle
  imports Complex_Main
begin

section \<open>FocusTimer: the phase controller of the Chrome extension\<close>

text \<open>
  The development embeds \<^verbatim>\<open>chrome/src/background.js\<close> (the service worker that owns the
  timer), the start-button handler of \<^verbatim>\<open>chrome/src/popup.js\<close> and, for pausing and
  completion, the view model of the Swift port.

  Conventions of the embedding:
  \<^item> A finite JavaScript number is the real it denotes; timestamps are milliseconds as
    returned by \<^verbatim>\<open>Date.now()\<close>. Every handler reads the clock at most once where the
    state depends on it, so the reading is the parameter \<open>now\<close> of the handler.
  \<^item> The product and the sum that compute the end of a phase from a duration, and the
    product that converts minutes to seconds, are rounded as IEEE 754 doubles are and can
    overflow (\<open>fl\<close>). The pause and resume handlers, whose operands are stored
    millisecond timestamps and whole seconds, are modelled in real arithmetic.
  \<^item> A field of a stored object is \<open>Undefined\<close> (the key is missing), \<open>Null\<close> or a value.
  \<^item> \<^verbatim>\<open>chrome.storage.local\<close>, the alarms and the notifications issued are the
    components of the record \<open>world\<close>; a handler maps a world to the next one. A handler
    runs to its end before the next one starts.
  \<^item> The badge, the tooltip and the \<^verbatim>\<open>stateChanged\<close> broadcast are derived from the
    stored state and do not feed back into it; they are left out.
\<close>

subsection \<open>Data\<close>

datatype phase = IDLE | RUNNING_A | WAITING_A | RUNNING_B

datatype 'a field = Undefined | Null | Val 'a

text \<open>What \<^verbatim>\<open>if (x)\<close> sees in a numeric and in a boolean field.\<close>

fun truthy_num :: "real field \<Rightarrow> bool" where
  "truthy_num (Val x) = (x \<noteq> 0)"
| "truthy_num _ = False"

fun truthy_bool :: "bool field \<Rightarrow> bool" where
  "truthy_bool (Val b) = b"
| "truthy_bool _ = False"


record timer_state =
  phase :: phase
  endTimestamp :: "real field"
  paused :: "bool field"
  remainingSeconds :: "real field"

record config =
  durationASeconds :: real
  durationBSeconds :: real

text \<open>A JavaScript number, and a value as it may arrive inside a message, before any check.\<close>

datatype number = Finite real | NaN | Infinity | NegInfinity

datatype jsval = JUndefined | JNull | JBool bool | JNumber number | JString string

record message_config =
  msg_durationASeconds :: jsval
  msg_durationBSeconds :: jsval

text \<open>
  A message has a \<^verbatim>\<open>type\<close> and, for \<^verbatim>\<open>start\<close>, a \<^verbatim>\<open>config\<close>; \<open>None\<close> is a
  falsy \<^verbatim>\<open>config\<close>.
\<close>

record message =
  msg_type :: string
  msg_config :: "message_config option"

datatype response = Ok | Error string

fun ok :: "response \<Rightarrow> bool" where
  "ok Ok = True"
| "ok (Error _) = False"

record world =
  stored_config :: "config option"
  stored_state :: "timer_state option"
  phaseEnd_alarm :: "number option"
  heartbeat_alarm :: bool
  notifications :: "string list"

definition ALARM_ID :: string where
  "ALARM_ID = ''phaseEnd''"

definition HEARTBEAT_ALARM_ID :: string where
  "HEARTBEAT_ALARM_ID = ''heartbeat''"

definition DEFAULT_CONFIG :: config where
  "DEFAULT_CONFIG = \<lparr>durationASeconds = 60, durationBSeconds = 60\<rparr>"

definition DEFAULT_STATE :: timer_state where
  "DEFAULT_STATE =
     \<lparr>phase = IDLE, endTimestamp = Null, paused = Val False, remainingSeconds = Null\<rparr>"

text \<open>The world of a fresh installation: nothing stored, nothing scheduled.\<close>

definition fresh :: world where
  "fresh = \<lparr>stored_config = None, stored_state = None, phaseEnd_alarm = None,
     heartbeat_alarm = False, notifications = []\<rparr>"

subsection \<open>Double arithmetic\<close>

text \<open>
  Rounding to the nearest double, ties to even. A real \<open>x\<close> other than zero lies in the
  binade \<open>2 ^ e \<le> \<bar>x\<bar> < 2 ^ (e + 1)\<close>, where doubles are \<open>2 ^ (e - 52)\<close> apart; below
  \<open>2 ^ - 1022\<close> the spacing stays \<open>2 ^ - 1074\<close>. A result of magnitude \<open>2 ^ 1024\<close> is an
  infinity. The sign of zero is not kept.
\<close>

definition binade :: "real \<Rightarrow> int" where
  "binade x = max \<lfloor>log 2 \<bar>x\<bar>\<rfloor> (- 1022)"

definition quantum :: "real \<Rightarrow> real" where
  "quantum x =
     (if 52 \<le> binade x then 2 ^ nat (binade x - 52) else 1 / 2 ^ nat (52 - binade x))"

definition round_half_even :: "real \<Rightarrow> int" where
  "round_half_even y =
     (if y - of_int \<lfloor>y\<rfloor> < 1 / 2 then \<lfloor>y\<rfloor>
      else if 1 / 2 < y - of_int \<lfloor>y\<rfloor> then \<lfloor>y\<rfloor> + 1
      else if even \<lfloor>y\<rfloor> then \<lfloor>y\<rfloor> else \<lfloor>y\<rfloor> + 1)"

definition fl :: "real \<Rightarrow> number" where
  "fl x =
     (if x = 0 then Finite 0
      else
        (let y = of_int (round_half_even (x / quantum x)) * quantum x in
         if 2 ^ 1024 \<le> \<bar>y\<bar> then (if 0 < x then Infinity else NegInfinity)
         else Finite y))"

text \<open>\<^verbatim>\<open>a * b\<close> of two finite numbers, and \<^verbatim>\<open>a + b\<close> where \<^verbatim>\<open>a\<close> is finite.\<close>

definition js_times :: "real \<Rightarrow> real \<Rightarrow> number" where
  "js_times a b = fl (a * b)"

fun js_plus :: "real \<Rightarrow> number \<Rightarrow> number" where
  "js_plus a (Finite b) = fl (a + b)"
| "js_plus a n = n"


text \<open>
  \<^verbatim>\<open>chrome.storage.local\<close> keeps values as JSON: a number that is not finite does not
  survive, and the field reads back without a value.
\<close>

fun storage_value :: "number \<Rightarrow> real field" where
  "storage_value (Finite x) = Val x"
| "storage_value _ = Null"

subsection \<open>Storage, alarms, notifications\<close>

definition getConfig :: "world \<Rightarrow> config" where
  "getConfig w = (case stored_config w of None \<Rightarrow> DEFAULT_CONFIG | Some c \<Rightarrow> c)"

definition getState :: "world \<Rightarrow> timer_state" where
  "getState w = (case stored_state w of None \<Rightarrow> DEFAULT_STATE | Some s \<Rightarrow> s)"

definition updateState :: "timer_state \<Rightarrow> world \<Rightarrow> world" where
  "updateState nextState w = w\<lparr>stored_state := Some nextState\<rparr>"

definition clearAlarm :: "world \<Rightarrow> world" where
  "clearAlarm w = w\<lparr>phaseEnd_alarm := None\<rparr>"

definition scheduleAlarm :: "number \<Rightarrow> world \<Rightarrow> world" where
  "scheduleAlarm t w = (clearAlarm w)\<lparr>phaseEnd_alarm := Some t\<rparr>"

definition ensureHeartbeatAlarm :: "world \<Rightarrow> world" where
  "ensureHeartbeatAlarm w = (if heartbeat_alarm w then w else w\<lparr>heartbeat_alarm := True\<rparr>)"

definition notifyPhaseComplete :: "phase \<Rightarrow> world \<Rightarrow> world" where
  "notifyPhaseComplete p w =
     (if p = WAITING_A then w\<lparr>notifications := notifications w @ [''Focus Timer complete'']\<rparr>
      else if p = RUNNING_B then w\<lparr>notifications := notifications w @ [''Break Timer complete'']\<rparr>
      else w)"

subsection \<open>Transitions\<close>

text \<open>
  The end of the phase is computed in doubles. The state is stored first; the alarm is then
  asked for at the computed time, whatever it is.
\<close>

definition startPhase :: "phase \<Rightarrow> real \<Rightarrow> real \<Rightarrow> world \<Rightarrow> world" where
  "startPhase p durationSeconds now w =
     (let e = js_plus now (js_times durationSeconds 1000) in
      ensureHeartbeatAlarm (scheduleAlarm e (updateState
        \<lparr>phase = p, endTimestamp = storage_value e, paused = Val False,
          remainingSeconds = Null\<rparr> w)))"

text \<open>The object written here has two keys only: the other two fields are missing.\<close>

definition transitionToWaiting :: "phase \<Rightarrow> world \<Rightarrow> world" where
  "transitionToWaiting p w =
     updateState \<lparr>phase = p, endTimestamp = Null, paused = Undefined,
       remainingSeconds = Undefined\<rparr> w"

definition resetToIdle :: "world \<Rightarrow> world" where
  "resetToIdle w =
     updateState \<lparr>phase = IDLE, endTimestamp = Null, paused = Val False,
       remainingSeconds = Null\<rparr> (clearAlarm w)"

definition startTimerA :: "config \<Rightarrow> real \<Rightarrow> world \<Rightarrow> world" where
  "startTimerA c now w =
     startPhase RUNNING_A (durationASeconds c) now (w\<lparr>stored_config := Some c\<rparr>)"

definition startTimerB :: "real \<Rightarrow> world \<Rightarrow> world" where
  "startTimerB now w = startPhase RUNNING_B (durationBSeconds (getConfig w)) now w"

definition handlePhaseCompletion :: "world \<Rightarrow> world" where
  "handlePhaseCompletion w =
     (let s = getState w in
      if truthy_bool (paused s) then w
      else if phase s = RUNNING_A then
        notifyPhaseComplete WAITING_A (transitionToWaiting WAITING_A w)
      else if phase s = RUNNING_B then
        notifyPhaseComplete RUNNING_B (resetToIdle w)
      else w)"

text \<open>\<^verbatim>\<open>state.endTimestamp && nowMs() >= state.endTimestamp\<close>\<close>

fun overdue :: "real field \<Rightarrow> real \<Rightarrow> bool" where
  "overdue (Val e) now = (e \<noteq> 0 \<and> now \<ge> e)"
| "overdue _ now = False"

definition handleAlarm :: "string \<Rightarrow> real \<Rightarrow> world \<Rightarrow> world" where
  "handleAlarm name now w =
     (if name \<noteq> ALARM_ID then
        (if name = HEARTBEAT_ALARM_ID then
           (let s = getState w in
            if truthy_bool (paused s) then w
            else if (phase s = RUNNING_A \<or> phase s = RUNNING_B) \<and> overdue (endTimestamp s) now
              then handlePhaseCompletion w
            else w)
         else w)
      else
        (let s = getState w in
         if phase s \<noteq> RUNNING_A \<and> phase s \<noteq> RUNNING_B then w
         else (case endTimestamp s of
             Val e \<Rightarrow>
               if e = 0 then w
               else if now \<ge> e then handlePhaseCompletion w
               else scheduleAlarm (Finite e) w
           | _ \<Rightarrow> w)))"

definition onButtonClicked :: "nat \<Rightarrow> real \<Rightarrow> world \<Rightarrow> world" where
  "onButtonClicked buttonIndex now w =
     (if phase (getState w) = WAITING_A \<and> buttonIndex = 0 then startTimerB now w else w)"

definition initialize :: "real \<Rightarrow> world \<Rightarrow> world" where
  "initialize now w =
     (let w1 = (if stored_config w = None then w\<lparr>stored_config := Some DEFAULT_CONFIG\<rparr> else w);
          w2 = ensureHeartbeatAlarm w1;
          s = getState w2 in
      if phase s = RUNNING_A \<or> phase s = RUNNING_B then
        (if overdue (endTimestamp s) now then handlePhaseCompletion w2
         else (case endTimestamp s of
             Val e \<Rightarrow> if e \<noteq> 0 then scheduleAlarm (Finite e) w2 else w2
           | _ \<Rightarrow> w2))
      else w2)"

subsection \<open>The message listener\<close>

text \<open>
  \<^verbatim>\<open>Number.isFinite\<close> holds of finite numbers only, without coercion: in the listener
  the pattern \<open>JNumber (Finite a)\<close> stands for it.
\<close>

fun Number_isFinite :: "jsval \<Rightarrow> bool" where
  "Number_isFinite (JNumber (Finite _)) = True"
| "Number_isFinite _ = False"

definition onStart :: "message_config option \<Rightarrow> real \<Rightarrow> world \<Rightarrow> world \<times> response" where
  "onStart mc now w =
     (if phase (getState w) \<noteq> IDLE then (w, Error ''Timer already running.'')
      else (case mc of
          None \<Rightarrow> (w, Error ''Invalid durations.'')
        | Some c \<Rightarrow>
            (case msg_durationASeconds c of
               JNumber (Finite a) \<Rightarrow>
                 (case msg_durationBSeconds c of
                    JNumber (Finite b) \<Rightarrow>
                      if a < 1 \<or> b < 1 then (w, Error ''Invalid durations.'')
                      else (startTimerA \<lparr>durationASeconds = a, durationBSeconds = b\<rparr> now w, Ok)
                  | _ \<Rightarrow> (w, Error ''Invalid durations.''))
             | _ \<Rightarrow> (w, Error ''Invalid durations.''))))"

definition onPause :: "real \<Rightarrow> world \<Rightarrow> world \<times> response" where
  "onPause now w =
     (let s = getState w in
      case endTimestamp s of
        Val e \<Rightarrow>
          if (phase s = RUNNING_A \<or> phase s = RUNNING_B) \<and> e \<noteq> 0 \<and> \<not> truthy_bool (paused s)
          then
            (let r = max 1 (of_int \<lceil>(e - now) / 1000\<rceil>) in
             (updateState (s\<lparr>paused := Val True, remainingSeconds := Val r,
                 endTimestamp := Null\<rparr>) (clearAlarm w), Ok))
          else (w, Error ''Nothing to pause.'')
      | _ \<Rightarrow> (w, Error ''Nothing to pause.''))"

definition onResume :: "real \<Rightarrow> world \<Rightarrow> world \<times> response" where
  "onResume now w =
     (let s = getState w in
      case remainingSeconds s of
        Val r \<Rightarrow>
          if truthy_bool (paused s) \<and> (phase s = RUNNING_A \<or> phase s = RUNNING_B) \<and> r \<noteq> 0
          then
            (let e = now + r * 1000 in
             (ensureHeartbeatAlarm (scheduleAlarm (Finite e) (updateState
                 (s\<lparr>paused := Val False, endTimestamp := Val e, remainingSeconds := Null\<rparr>) w)),
              Ok))
          else (w, Error ''Nothing to resume.'')
      | _ \<Rightarrow> (w, Error ''Nothing to resume.''))"

text \<open>
  The branch for \<^verbatim>\<open>ackA\<close> returns only when the phase is \<open>WAITING_A\<close>; otherwise control
  falls through the remaining tests to the last line of the listener.
\<close>

definition onMessage :: "message \<Rightarrow> real \<Rightarrow> world \<Rightarrow> world \<times> response" where
  "onMessage m now w =
     (if msg_type m = ''start'' then onStart (msg_config m) now w
      else if msg_type m = ''ackA'' \<and> phase (getState w) = WAITING_A
        then (startTimerB now w, Ok)
      else if msg_type m = ''pause'' then onPause now w
      else if msg_type m = ''resume'' then onResume now w
      else if msg_type m = ''cancel'' then (resetToIdle w, Ok)
      else (w, Error ''Invalid state.''))"

text \<open>The operations of the controller by name.\<close>

definition msg :: "string \<Rightarrow> message" where
  "msg t = \<lparr>msg_type = t, msg_config = None\<rparr>"

definition start :: "jsval \<Rightarrow> jsval \<Rightarrow> message" where
  "start a b = \<lparr>msg_type = ''start'',
     msg_config = Some \<lparr>msg_durationASeconds = a, msg_durationBSeconds = b\<rparr>\<rparr>"

subsection \<open>Runs\<close>

text \<open>
  Everything that can enter the service worker: a message, an alarm, a click on a
  notification button, and the start of the worker itself.
\<close>

datatype event =
  Message message | Alarm string | ButtonClicked nat | Initialize

fun dispatch :: "event \<Rightarrow> real \<Rightarrow> world \<Rightarrow> world" where
  "dispatch (Message m) now w = fst (onMessage m now w)"
| "dispatch (Alarm name) now w = handleAlarm name now w"
| "dispatch (ButtonClicked i) now w = onButtonClicked i now w"
| "dispatch Initialize now w = initialize now w"

fun run :: "(event \<times> real) list \<Rightarrow> world \<Rightarrow> world" where
  "run [] w = w"
| "run ((ev, now) # rest) w = run rest (dispatch ev now w)"

text \<open>
  The durations that a \<open>start\<close> message carries, and the condition on a run that no end
  of a phase overflows: at each event, the ends computed from its clock reading and either
  a duration of its \<open>start\<close> message or the break duration stored at that moment are finite
  doubles.
\<close>

fun finite_values :: "jsval list \<Rightarrow> real list" where
  "finite_values [] = []"
| "finite_values (JNumber (Finite x) # vs) = x # finite_values vs"
| "finite_values (v # vs) = finite_values vs"

fun durations_of :: "event \<Rightarrow> real list" where
  "durations_of (Message m) =
     (if msg_type m = ''start'' then
        (case msg_config m of
           None \<Rightarrow> []
         | Some c \<Rightarrow> finite_values [msg_durationASeconds c, msg_durationBSeconds c])
      else [])"
| "durations_of ev = []"


subsection \<open>The popup: the start button\<close>

text \<open>
  \<^verbatim>\<open>Number.parseFloat\<close> is the browser's; the handler takes it as the parameter
  \<open>parseFloat\<close>. \<open>None\<close> is the \<^verbatim>\<open>null\<close> that \<^verbatim>\<open>clampMinutes\<close> returns.
\<close>

definition clampMinutes :: "(string \<Rightarrow> number) \<Rightarrow> string \<Rightarrow> number option" where
  "clampMinutes parseFloat v =
     (case parseFloat v of
        NaN \<Rightarrow> None
      | Finite x \<Rightarrow> if x \<le> 0 then None else Some (Finite x)
      | NegInfinity \<Rightarrow> None
      | Infinity \<Rightarrow> Some Infinity)"

text \<open>
  \<^verbatim>\<open>Math.round\<close> gives the nearest integer, a half going towards plus infinity; the
  product \<^verbatim>\<open>minutes * 60\<close> is a double product.
\<close>

fun Math_round :: "number \<Rightarrow> number" where
  "Math_round (Finite x) = Finite (of_int \<lfloor>x + 1 / 2\<rfloor>)"
| "Math_round n = n"

fun minutesToSeconds :: "number \<Rightarrow> number" where
  "minutesToSeconds (Finite m) = Math_round (js_times m 60)"
| "minutesToSeconds n = n"

text \<open>\<^verbatim>\<open>!x\<close> for a number \<open>x\<close>; of \<^verbatim>\<open>null\<close> it is true.\<close>

fun falsy :: "number \<Rightarrow> bool" where
  "falsy (Finite x) = (x = 0)"
| "falsy NaN = True"
| "falsy _ = False"

datatype click_effect = Sent message | StatusMessage string | Nothing

definition startBtn_click ::
  "(string \<Rightarrow> number) \<Rightarrow> timer_state \<Rightarrow> string \<Rightarrow> string \<Rightarrow> click_effect" where
  "startBtn_click parseFloat currentState timerA timerB =
     (if phase currentState = WAITING_A then Sent (msg ''ackA'')
      else if phase currentState \<noteq> IDLE then Nothing
      else
        (case clampMinutes parseFloat timerA of
           None \<Rightarrow> StatusMessage ''Durations must be at least 1 minute.''
         | Some durationAMinutes \<Rightarrow>
             (case clampMinutes parseFloat timerB of
                None \<Rightarrow> StatusMessage ''Durations must be at least 1 minute.''
              | Some durationBMinutes \<Rightarrow>
                  if falsy durationAMinutes \<or> falsy durationBMinutes
                  then StatusMessage ''Durations must be at least 1 minute.''
                  else Sent (start
                    (JNumber (if durationAMinutes = Finite 333 then Finite 5
                              else minutesToSeconds durationAMinutes))
                    (JNumber (minutesToSeconds durationBMinutes))))))"

subsection \<open>The Swift port\<close>

text \<open>
  \<^verbatim>\<open>ios/FocusTimer/FocusTimer/ContentView.swift\<close> keeps the same machine in
  \<^verbatim>\<open>TimerViewModel\<close>, with the paused phases as values of \<^verbatim>\<open>Phase\<close> and times in
  seconds. The record holds the config, the state and the identifiers of the notification
  requests added; \<^verbatim>\<open>Date()\<close> is the parameter \<open>now\<close>. The display strings are left out.
\<close>

datatype Phase = idle | runningFocus | waitingForConfirm | runningBreak | pausedFocus
  | pausedBreak

record TimerViewModel =
  focusMinutes :: int
  breakMinutes :: int
  state_phase :: Phase
  state_endDate :: "real option"
  state_remainingSeconds :: "real option"
  requests :: "string list"

definition scheduleCompletionNotification :: "Phase \<Rightarrow> TimerViewModel \<Rightarrow> TimerViewModel" where
  "scheduleCompletionNotification p m =
     (case p of
        runningFocus \<Rightarrow> m\<lparr>requests := requests m @ [''focusComplete'']\<rparr>
      | runningBreak \<Rightarrow> m\<lparr>requests := requests m @ [''breakComplete'']\<rparr>
      | waitingForConfirm \<Rightarrow> m\<lparr>requests := requests m @ [''focusComplete'']\<rparr>
      | idle \<Rightarrow> m\<lparr>requests := requests m @ [''breakComplete'']\<rparr>
      | _ \<Rightarrow> m)"

definition handleCompletion :: "TimerViewModel \<Rightarrow> TimerViewModel" where
  "handleCompletion m =
     (case state_phase m of
        runningFocus \<Rightarrow>
          scheduleCompletionNotification waitingForConfirm
            (m\<lparr>state_phase := waitingForConfirm, state_endDate := None\<rparr>)
      | runningBreak \<Rightarrow>
          scheduleCompletionNotification idle
            (m\<lparr>state_phase := idle, state_endDate := None, state_remainingSeconds := None\<rparr>)
      | _ \<Rightarrow> m)"

definition pauseOrResume :: "real \<Rightarrow> TimerViewModel \<Rightarrow> TimerViewModel" where
  "pauseOrResume now m =
     (if state_phase m = runningFocus \<or> state_phase m = runningBreak then
        (case state_endDate m of
           None \<Rightarrow> m
         | Some endDate \<Rightarrow>
             m\<lparr>state_remainingSeconds := Some (max 1 (endDate - now)), state_endDate := None,
               state_phase := (if state_phase m = runningFocus then pausedFocus
                               else pausedBreak)\<rparr>)
      else if state_phase m = pausedFocus \<or> state_phase m = pausedBreak then
        (case state_remainingSeconds m of
           None \<Rightarrow> m
         | Some remaining \<Rightarrow>
             (let p = (if state_phase m = pausedFocus then runningFocus else runningBreak) in
              scheduleCompletionNotification p
                (m\<lparr>state_endDate := Some (now + remaining), state_remainingSeconds := None,
                   state_phase := p\<rparr>)))
      else m)"

definition resumeIfNeeded :: "real \<Rightarrow> TimerViewModel \<Rightarrow> TimerViewModel" where
  "resumeIfNeeded now m =
     (if state_phase m = runningFocus \<or> state_phase m = runningBreak then
        (case state_endDate m of
           Some endDate \<Rightarrow> if endDate \<le> now then handleCompletion m else m
         | None \<Rightarrow> m)
      else m)"

definition tick :: "real \<Rightarrow> TimerViewModel \<Rightarrow> TimerViewModel" where
  "tick now m =
     (if state_phase m = runningFocus \<or> state_phase m = runningBreak then
        (case state_endDate m of
           None \<Rightarrow> m
         | Some endDate \<Rightarrow> if max 0 (endDate - now) \<le> 0 then handleCompletion m else m)
      else m)"

subsection \<open>The invariant and example worlds\<close>


text \<open>Example worlds for the closed instances below.\<close>

definition waiting_world :: world where
  "waiting_world = fresh\<lparr>stored_state := Some \<lparr>phase = WAITING_A, endTimestamp = Null,
     paused = Undefined, remainingSeconds = Undefined\<rparr>\<rparr>"

definition running_focus_world :: world where
  "running_focus_world = fresh\<lparr>stored_state := Some \<lparr>phase = RUNNING_A,
     endTimestamp = Val 61000, paused = Val False, remainingSeconds = Null\<rparr>\<rparr>"

definition running_break_world :: world where
  "running_break_world = fresh\<lparr>stored_state := Some \<lparr>phase = RUNNING_B,
     endTimestamp = Val 61000, paused = Val False, remainingSeconds = Null\<rparr>\<rparr>"

definition paused_stale_world :: world where
  "paused_stale_world = fresh\<lparr>stored_state := Some \<lparr>phase = RUNNING_A,
     endTimestamp = Val 61000, paused = Val True, remainingSeconds = Val 30\<rparr>\<rparr>"

text \<open>A stand-in for \<^verbatim>\<open>Number.parseFloat\<close> on the inputs used below.\<close>

definition example_parseFloat :: "string \<Rightarrow> number" where
  "example_parseFloat s =
     (if s = ''333'' then Finite 333 else if s = ''25'' then Finite 25 else NaN)"

section \<open>Basic facts\<close>

subsection \<open>Doubles: integers below \<open>2 ^ 53\<close> are exact, \<open>2 ^ 1024\<close> overflows\<close>

lemma round_half_even_of_int [simp]: "round_half_even (of_int n) = n"
  by (simp add: round_half_even_def)


lemma binade_of_int:
  assumes "n \<noteq> 0" and "\<bar>n\<bar> < 2 ^ 53"
  shows "0 \<le> binade (of_int n)" and "binade (of_int n) \<le> 52"
proof -
  define x :: real where "x = of_int \<bar>n\<bar>"
  have ax: "\<bar>of_int n :: real\<bar> = x" by (simp add: x_def)
  from assms(1) have "1 \<le> \<bar>n\<bar>" by linarith
  then have x1: "1 \<le> x" unfolding x_def by (simp only: of_int_1_le_iff)
  from assms(2) have "x < of_int (2 ^ 53)" unfolding x_def by (simp only: of_int_less_iff)
  then have x2: "x < 2 ^ 53" by simp
  from x1 have "0 \<le> log 2 x" by simp
  then have f0: "0 \<le> \<lfloor>log 2 x\<rfloor>" by simp
  have "(2::real) powr 53 = 2 ^ 53"
    using powr_realpow [of "2::real" 53] by simp
  with x1 x2 have "log 2 x < 53"
    by (simp add: log_less_iff)
  then have f1: "\<lfloor>log 2 x\<rfloor> \<le> 52" by linarith
  from f0 show "0 \<le> binade (of_int n)" by (simp add: binade_def ax)
  from f1 show "binade (of_int n) \<le> 52" by (simp add: binade_def ax)
qed

lemma fl_of_int:
  assumes "\<bar>n\<bar> < 2 ^ 53"
  shows "fl (of_int n) = Finite (of_int n)"
proof (cases "n = 0")
  case True
  then show ?thesis by (simp add: fl_def)
next
  case False
  define k where "k = nat (52 - binade (of_int n))"
  from binade_of_int [OF False assms]
  have q: "quantum (of_int n) = (if k = 0 then 1 else 1 / 2 ^ k)"
    by (auto simp add: quantum_def k_def)
  then have q': "quantum (of_int n) = 1 / 2 ^ k" by simp
  have "round_half_even (of_int (n * 2 ^ k)) = n * 2 ^ k"
    by (rule round_half_even_of_int)
  then have r: "round_half_even (of_int n * 2 ^ k) = n * 2 ^ k"
    by simp
  have y: "of_int (round_half_even (of_int n / quantum (of_int n))) * quantum (of_int n)
      = (of_int n :: real)"
    by (simp add: r q')
  from assms have "\<bar>of_int n :: real\<bar> < 2 ^ 53"
    by (metis of_int_abs of_int_less_numeral_power_cancel_iff)
  moreover have "(2::real) ^ 53 \<le> 2 ^ 1024"
    by (rule power_increasing) simp_all
  ultimately have "\<not> 2 ^ 1024 \<le> \<bar>of_int n :: real\<bar>" by linarith
  with False y show ?thesis by (simp add: fl_def Let_def)
qed

lemma fl_exact:
  assumes "x \<in> \<int>" and "\<bar>x\<bar> < 2 ^ 53"
  shows "fl x = Finite x"
proof -
  from assms(1) obtain n where n: "x = of_int n" by (auto elim: Ints_cases)
  with assms(2) have "\<bar>of_int n :: real\<bar> < 2 ^ 53" by simp
  then have "\<bar>n\<bar> < 2 ^ 53"
    by (metis of_int_abs of_int_less_numeral_power_cancel_iff)
  then show ?thesis unfolding n by (rule fl_of_int)
qed



subsection \<open>Storage and transitions\<close>

lemma getState_updateState [simp]: "getState (updateState s w) = s"
  by (simp add: getState_def updateState_def)

lemma getState_clearAlarm [simp]: "getState (clearAlarm w) = getState w"
  by (simp add: getState_def clearAlarm_def)

lemma getState_scheduleAlarm [simp]: "getState (scheduleAlarm t w) = getState w"
  by (simp add: getState_def scheduleAlarm_def clearAlarm_def)

lemma getState_ensureHeartbeatAlarm [simp]: "getState (ensureHeartbeatAlarm w) = getState w"
  by (simp add: getState_def ensureHeartbeatAlarm_def)

lemma getState_notifyPhaseComplete [simp]: "getState (notifyPhaseComplete p w) = getState w"
  by (simp add: getState_def notifyPhaseComplete_def)

lemma getState_stored_config [simp]: "getState (w\<lparr>stored_config := c\<rparr>) = getState w"
  by (simp add: getState_def)

lemma notifications_notifyPhaseComplete [simp]:
  "notifications (notifyPhaseComplete p w) =
     notifications w @
       (if p = WAITING_A then [''Focus Timer complete'']
        else if p = RUNNING_B then [''Break Timer complete''] else [])"
  by (simp add: notifyPhaseComplete_def)

lemma notifications_updateState [simp]: "notifications (updateState s w) = notifications w"
  by (simp add: updateState_def)

lemma notifications_clearAlarm [simp]: "notifications (clearAlarm w) = notifications w"
  by (simp add: clearAlarm_def)

lemma notifications_scheduleAlarm [simp]: "notifications (scheduleAlarm t w) = notifications w"
  by (simp add: scheduleAlarm_def clearAlarm_def)

lemma notifications_ensureHeartbeatAlarm [simp]:
  "notifications (ensureHeartbeatAlarm w) = notifications w"
  by (simp add: ensureHeartbeatAlarm_def)

lemma getState_startPhase [simp]:
  "getState (startPhase p d now w) =
     \<lparr>phase = p, endTimestamp = storage_value (js_plus now (js_times d 1000)),
       paused = Val False, remainingSeconds = Null\<rparr>"
  by (simp add: startPhase_def Let_def)

lemma notifications_startPhase [simp]:
  "notifications (startPhase p d now w) = notifications w"
  by (simp add: startPhase_def Let_def)

lemma getState_resetToIdle [simp]: "getState (resetToIdle w) = DEFAULT_STATE"
  by (simp add: resetToIdle_def DEFAULT_STATE_def)

lemma notifications_resetToIdle [simp]: "notifications (resetToIdle w) = notifications w"
  by (simp add: resetToIdle_def)

lemma getState_transitionToWaiting [simp]:
  "getState (transitionToWaiting p w) =
     \<lparr>phase = p, endTimestamp = Null, paused = Undefined, remainingSeconds = Undefined\<rparr>"
  by (simp add: transitionToWaiting_def)

lemma notifications_transitionToWaiting [simp]:
  "notifications (transitionToWaiting p w) = notifications w"
  by (simp add: transitionToWaiting_def)

lemma getState_startTimerB [simp]:
  "getState (startTimerB now w) =
     \<lparr>phase = RUNNING_B,
       endTimestamp = storage_value (js_plus now (js_times (durationBSeconds (getConfig w)) 1000)),
       paused = Val False, remainingSeconds = Null\<rparr>"
  by (simp add: startTimerB_def)

lemma getState_startTimerA [simp]:
  "getState (startTimerA c now w) =
     \<lparr>phase = RUNNING_A,
       endTimestamp = storage_value (js_plus now (js_times (durationASeconds c) 1000)),
       paused = Val False, remainingSeconds = Null\<rparr>"
  by (simp add: startTimerA_def)

lemma getConfig_unchanged [simp]:
  "getConfig (updateState s w) = getConfig w"
  "getConfig (clearAlarm w) = getConfig w"
  "getConfig (scheduleAlarm t w) = getConfig w"
  "getConfig (ensureHeartbeatAlarm w) = getConfig w"
  "getConfig (notifyPhaseComplete p w) = getConfig w"
  by (simp_all add: getConfig_def updateState_def clearAlarm_def scheduleAlarm_def
      ensureHeartbeatAlarm_def notifyPhaseComplete_def)

lemma getConfig_transitions [simp]:
  "getConfig (startPhase p d now w) = getConfig w"
  "getConfig (transitionToWaiting p w) = getConfig w"
  "getConfig (resetToIdle w) = getConfig w"
  "getConfig (startTimerB now w) = getConfig w"
  "getConfig (startTimerA c now w) = c"
  "getConfig (handlePhaseCompletion w) = getConfig w"
  by (simp_all add: startPhase_def transitionToWaiting_def resetToIdle_def startTimerB_def
      startTimerA_def handlePhaseCompletion_def Let_def)
     (simp add: getConfig_def)

lemma handlePhaseCompletion_paused:
  "truthy_bool (paused (getState w)) \<Longrightarrow> handlePhaseCompletion w = w"
  by (simp add: handlePhaseCompletion_def Let_def)

lemma handlePhaseCompletion_focus:
  assumes "\<not> truthy_bool (paused (getState w))" and "phase (getState w) = RUNNING_A"
  shows "getState (handlePhaseCompletion w) =
           \<lparr>phase = WAITING_A, endTimestamp = Null, paused = Undefined,
             remainingSeconds = Undefined\<rparr>"
    and "notifications (handlePhaseCompletion w) = notifications w @ [''Focus Timer complete'']"
  using assms by (simp_all add: handlePhaseCompletion_def Let_def)

lemma handlePhaseCompletion_break:
  assumes "\<not> truthy_bool (paused (getState w))" and "phase (getState w) = RUNNING_B"
  shows "getState (handlePhaseCompletion w) = DEFAULT_STATE"
    and "notifications (handlePhaseCompletion w) = notifications w @ [''Break Timer complete'']"
  using assms by (simp_all add: handlePhaseCompletion_def Let_def)

lemma handlePhaseCompletion_other:
  assumes "phase (getState w) \<noteq> RUNNING_A" and "phase (getState w) \<noteq> RUNNING_B"
  shows "handlePhaseCompletion w = w"
  using assms by (simp add: handlePhaseCompletion_def Let_def)

lemma handleAlarm_phaseEnd_overdue:
  assumes "phase (getState w) = RUNNING_A \<or> phase (getState w) = RUNNING_B"
    and "endTimestamp (getState w) = Val e" and "e \<noteq> 0" and "e \<le> now"
  shows "handleAlarm ALARM_ID now w = handlePhaseCompletion w"
  using assms by (auto simp add: handleAlarm_def Let_def)

lemma handleAlarm_heartbeat_overdue:
  assumes "phase (getState w) = RUNNING_A \<or> phase (getState w) = RUNNING_B"
    and "endTimestamp (getState w) = Val e" and "e \<noteq> 0" and "e \<le> now"
  shows "handleAlarm HEARTBEAT_ALARM_ID now w = handlePhaseCompletion w"
  using assms
  by (auto simp add: handleAlarm_def Let_def ALARM_ID_def HEARTBEAT_ALARM_ID_def
      handlePhaseCompletion_paused)

lemma initialize_overdue:
  assumes "phase (getState w) = RUNNING_A \<or> phase (getState w) = RUNNING_B"
    and "endTimestamp (getState w) = Val e" and "e \<noteq> 0" and "e \<le> now"
  shows "getState (initialize now w) = getState (handlePhaseCompletion w)"
    and "notifications (initialize now w) = notifications (handlePhaseCompletion w)"
  using assms
  by (auto simp add: initialize_def Let_def handlePhaseCompletion_def)

lemma onMessage_pause [simp]: "onMessage (msg ''pause'') now w = onPause now w"
  by (simp add: onMessage_def msg_def)

lemma onMessage_resume [simp]: "onMessage (msg ''resume'') now w = onResume now w"
  by (simp add: onMessage_def msg_def)

lemma onMessage_cancel [simp]: "onMessage (msg ''cancel'') now w = (resetToIdle w, Ok)"
  by (simp add: onMessage_def msg_def)

lemma onMessage_ackA [simp]:
  "onMessage (msg ''ackA'') now w =
     (if phase (getState w) = WAITING_A then (startTimerB now w, Ok)
      else (w, Error ''Invalid state.''))"
  by (simp add: onMessage_def msg_def)

lemma onMessage_start [simp]:
  "onMessage (start a b) now w =
     onStart (Some \<lparr>msg_durationASeconds = a, msg_durationBSeconds = b\<rparr>) now w"
  by (simp add: onMessage_def start_def)

lemma onPause_running:
  assumes "phase (getState w) = RUNNING_A \<or> phase (getState w) = RUNNING_B"
    and "\<not> truthy_bool (paused (getState w))"
    and "endTimestamp (getState w) = Val e" and "e \<noteq> 0"
  shows "onPause now w =
     (updateState ((getState w)\<lparr>paused := Val True,
          remainingSeconds := Val (max 1 (of_int \<lceil>(e - now) / 1000\<rceil>)),
          endTimestamp := Null\<rparr>) (clearAlarm w), Ok)"
  using assms by (auto simp add: onPause_def Let_def)

lemma onResume_paused:
  assumes "phase (getState w) = RUNNING_A \<or> phase (getState w) = RUNNING_B"
    and "truthy_bool (paused (getState w))"
    and "remainingSeconds (getState w) = Val r" and "r \<noteq> 0"
  shows "onResume now w =
     (ensureHeartbeatAlarm (scheduleAlarm (Finite (now + r * 1000)) (updateState
        ((getState w)\<lparr>paused := Val False, endTimestamp := Val (now + r * 1000),
           remainingSeconds := Null\<rparr>) w)), Ok)"
  using assms by (auto simp add: onResume_def Let_def)

lemma captured_remaining_ge_1: "1 \<le> max (1::real) (of_int \<lceil>x\<rceil>)"
  by simp

lemma captured_remaining_overdue: "x \<le> 0 \<Longrightarrow> max (1::real) (of_int \<lceil>x\<rceil>) = 1"
proof -
  assume "x \<le> 0"
  then have "\<lceil>x\<rceil> \<le> 0" by (simp add: ceiling_le_zero)
  then have "(of_int \<lceil>x\<rceil> :: real) \<le> 0" by simp
  then show ?thesis by simp
qed


lemma onStart_not_idle:
  "phase (getState w) \<noteq> IDLE \<Longrightarrow> onStart mc now w = (w, Error ''Timer already running.'')"
  by (simp add: onStart_def)

lemma onPause_paused:
  "truthy_bool (paused (getState w)) \<Longrightarrow> onPause now w = (w, Error ''Nothing to pause.'')"
  by (simp add: onPause_def Let_def split: field.splits)

lemma handleAlarm_paused:
  assumes "truthy_bool (paused (getState w))"
  shows "getState (handleAlarm name now w) = getState w"
    and "notifications (handleAlarm name now w) = notifications w"
  using assms
  by (auto simp add: handleAlarm_def Let_def handlePhaseCompletion_paused split: field.splits)

lemma initialize_paused:
  assumes "truthy_bool (paused (getState w))"
  shows "getState (initialize now w) = getState w"
    and "notifications (initialize now w) = notifications w"
  using assms
  by (auto simp add: initialize_def Let_def handlePhaseCompletion_paused split: field.splits)






lemma durations_of_start [simp]:
  "durations_of (Message (start a b)) = finite_values [a, b]"
  by (simp add: start_def)

lemma durations_of_msg [simp]: "durations_of (Message (msg t)) = []"
  by (simp add: msg_def)





lemma onPause_rejected:
  assumes "\<not> ((phase (getState w) = RUNNING_A \<or> phase (getState w) = RUNNING_B) \<and>
      truthy_num (endTimestamp (getState w)) \<and> \<not> truthy_bool (paused (getState w)))"
  shows "onPause now w = (w, Error ''Nothing to pause.'')"
  using assms by (cases "endTimestamp (getState w)") (auto simp add: onPause_def Let_def)

lemma onResume_rejected:
  assumes "\<not> (truthy_bool (paused (getState w)) \<and>
      (phase (getState w) = RUNNING_A \<or> phase (getState w) = RUNNING_B) \<and>
      truthy_num (remainingSeconds (getState w)))"
  shows "onResume now w = (w, Error ''Nothing to resume.'')"
  using assms by (cases "remainingSeconds (getState w)") (auto simp add: onResume_def Let_def)







lemma onStart_invalid:
  assumes "phase (getState w) = IDLE"
    and "mc = None \<or> (\<exists>c. mc = Some c \<and>
          (\<not> Number_isFinite (msg_durationASeconds c) \<or>
           \<not> Number_isFinite (msg_durationBSeconds c) \<or>
           (\<exists>a. msg_durationASeconds c = JNumber (Finite a) \<and> a < 1) \<or>
           (\<exists>b. msg_durationBSeconds c = JNumber (Finite b) \<and> b < 1)))"
  shows "onStart mc now w = (w, Error ''Invalid durations.'')"
proof (cases mc)
  case None
  with assms(1) show ?thesis by (simp add: onStart_def)
next
  case (Some c)
  with assms(2) have bad:
    "\<not> Number_isFinite (msg_durationASeconds c) \<or>
     \<not> Number_isFinite (msg_durationBSeconds c) \<or>
     (\<exists>a. msg_durationASeconds c = JNumber (Finite a) \<and> a < 1) \<or>
     (\<exists>b. msg_durationBSeconds c = JNumber (Finite b) \<and> b < 1)"
    by simp
  show ?thesis
  proof (cases "\<exists>a b. msg_durationASeconds c = JNumber (Finite a) \<and>
      msg_durationBSeconds c = JNumber (Finite b)")
    case True
    then obtain a b where ab: "msg_durationASeconds c = JNumber (Finite a)"
      "msg_durationBSeconds c = JNumber (Finite b)" by blast
    with bad have "a < 1 \<or> b < 1" by auto
    with ab Some assms(1) show ?thesis by (simp add: onStart_def)
  next
    case False
    with Some assms(1) show ?thesis
      by (auto simp add: onStart_def split: jsval.splits number.splits)
  qed
qed

lemma onStart_cases:
  "onStart mc now w = (w, Error ''Timer already running.'') \<or>
   onStart mc now w = (w, Error ''Invalid durations.'') \<or>
   (\<exists>c. onStart mc now w = (startTimerA c now w, Ok))"
  by (auto simp add: onStart_def split: option.splits jsval.splits number.splits)

lemma onStart_rejected_unchanged: "\<not> ok (snd (onStart mc now w)) \<Longrightarrow> fst (onStart mc now w) = w"
  using onStart_cases [of mc now w] by auto

lemma onPause_rejected_unchanged: "\<not> ok (snd (onPause now w)) \<Longrightarrow> fst (onPause now w) = w"
  by (cases "endTimestamp (getState w)") (auto simp add: onPause_def Let_def)

lemma onResume_rejected_unchanged: "\<not> ok (snd (onResume now w)) \<Longrightarrow> fst (onResume now w) = w"
  by (cases "remainingSeconds (getState w)") (auto simp add: onResume_def Let_def)

lemma onMessage_rejected_unchanged:
  "\<not> ok (snd (onMessage m now w)) \<Longrightarrow> fst (onMessage m now w) = w"
  by (auto simp add: onMessage_def onStart_rejected_unchanged onPause_rejected_unchanged
      onResume_rejected_unchanged split: if_splits)

lemma getState_fresh [simp]: "getState fresh = DEFAULT_STATE"
  by (simp add: getState_def fresh_def)

lemma getState_running_focus_world [simp]:
  "getState running_focus_world = \<lparr>phase = RUNNING_A,
     endTimestamp = Val 61000, paused = Val False, remainingSeconds = Null\<rparr>"
  by (simp add: getState_def running_focus_world_def)

lemma getState_running_break_world [simp]:
  "getState running_break_world = \<lparr>phase = RUNNING_B,
     endTimestamp = Val 61000, paused = Val False, remainingSeconds = Null\<rparr>"
  by (simp add: getState_def running_break_world_def)

lemma getState_paused_stale_world [simp]:
  "getState paused_stale_world = \<lparr>phase = RUNNING_A,
     endTimestamp = Val 61000, paused = Val True, remainingSeconds = Val 30\<rparr>"
  by (simp add: getState_def paused_stale_world_def)

lemma getState_waiting_world [simp]:
  "getState waiting_world = \<lparr>phase = WAITING_A, endTimestamp = Null,
     paused = Undefined, remainingSeconds = Undefined\<rparr>"
  by (simp add: getState_def waiting_world_def)

lemma notifications_example_worlds [simp]:
  "notifications fresh = []" "notifications running_focus_world = []"
  "notifications running_break_world = []" "notifications paused_stale_world = []"
  by (simp_all add: fresh_def running_focus_world_def running_break_world_def
      paused_stale_world_def)

lemma resetToIdle_stays:
  "handleAlarm name later (resetToIdle w) = resetToIdle w"
  "handlePhaseCompletion (resetToIdle w) = resetToIdle w"
  by (simp_all add: handleAlarm_def handlePhaseCompletion_def Let_def DEFAULT_STATE_def)

lemma clampMinutes_truthy:
  assumes "clampMinutes parseFloat v = Some m"
  shows "\<not> falsy m"
proof (cases "parseFloat v")
  case (Finite x)
  with assms have "0 < x \<and> m = Finite x"
    by (simp add: clampMinutes_def split: if_splits)
  then show ?thesis by simp
next
  case NaN
  with assms show ?thesis by (simp add: clampMinutes_def)
next
  case Infinity
  with assms have "m = Infinity" by (simp add: clampMinutes_def)
  then show ?thesis by simp
next
  case NegInfinity
  with assms show ?thesis by (simp add: clampMinutes_def)
qed

lemma minutesToSeconds_333: "minutesToSeconds (Finite 333) = Finite 19980"
proof -
  have "js_times 333 60 = Finite 19980"
    by (simp add: js_times_def fl_exact)
  moreover have "\<lfloor>(19980::real) + 1 / 2\<rfloor> = 19980"
    by (simp add: floor_eq_iff)
  ultimately show ?thesis by simp
qed

lemma minutesToSeconds_25: "minutesToSeconds (Finite 25) = Finite 1500"
proof -
  have "js_times 25 60 = Finite 1500"
    by (simp add: js_times_def fl_exact)
  moreover have "\<lfloor>(1500::real) + 1 / 2\<rfloor> = 1500"
    by (simp add: floor_eq_iff)
  ultimately show ?thesis by simp
qed

section \<open>The Swift port: pausing\<close>

text \<open>
  The Swift view model agrees with the extension on the two points where its code is the
  model for the specification: a paused phase is never completed by the launch check or the
  ticker, and a pause after the end date stores one second.
\<close>

lemma ios_paused_never_completes:
  assumes "state_phase m = pausedFocus \<or> state_phase m = pausedBreak"
  shows "resumeIfNeeded now m = m \<and> tick now m = m \<and> handleCompletion m = m"
  using assms by (auto simp add: resumeIfNeeded_def tick_def handleCompletion_def)

lemma ios_pause_preempts_overdue_completion:
  assumes "state_phase m = runningFocus \<or> state_phase m = runningBreak"
    and "state_endDate m = Some e" and "e \<le> now"
  shows "pauseOrResume now m =
      m\<lparr>state_remainingSeconds := Some 1, state_endDate := None,
        state_phase := (if state_phase m = runningFocus then pausedFocus else pausedBreak)\<rparr>"
    and "state_phase (pauseOrResume later (pauseOrResume now m)) = state_phase m"
    and "state_endDate (pauseOrResume later (pauseOrResume now m)) = Some (later + 1)"
  using assms
  by (auto simp add: pauseOrResume_def scheduleCompletionNotification_def Let_def)

section \<open>The claims\<close>

text \<open>
  \<^bold>\<open>C1.\<close> Let the stored state be a running phase (\<open>RUNNING_A\<close> or \<open>RUNNING_B\<close>, not
  paused) whose \<open>endTimestamp\<close> is a timestamp \<open>e\<close> that has passed (\<open>e \<le> now\<close>). Then each
  re-entry of the worker (its initialisation, the heartbeat alarm, the one-shot
  \<open>phaseEnd\<close> alarm) moves \<open>RUNNING_A\<close> to \<open>WAITING_A\<close> with \<open>endTimestamp\<close> cleared and
  \<open>RUNNING_B\<close> to the default idle state, issues the matching notification once, and
  leaves the same state and notifications as the \<open>phaseEnd\<close> alarm firing exactly at \<open>e\<close>.
  The timestamp is nonzero, as every sum of \<^verbatim>\<open>Date.now()\<close> and a positive duration is:
  the code tests \<^verbatim>\<open>state.endTimestamp\<close> for truthiness.
\<close>

theorem reentry_completes_overdue_phase:
  assumes "phase (getState w) = RUNNING_A \<or> phase (getState w) = RUNNING_B"
    and "\<not> truthy_bool (paused (getState w))"
    and "endTimestamp (getState w) = Val e" and "e \<noteq> 0" and "e \<le> now"
    and "ev = Initialize \<or> ev = Alarm HEARTBEAT_ALARM_ID \<or> ev = Alarm ALARM_ID"
  shows "getState (dispatch ev now w) =
      (if phase (getState w) = RUNNING_A
       then \<lparr>phase = WAITING_A, endTimestamp = Null, paused = Undefined,
              remainingSeconds = Undefined\<rparr>
       else DEFAULT_STATE) \<and>
    notifications (dispatch ev now w) =
      notifications w @ [if phase (getState w) = RUNNING_A then ''Focus Timer complete''
                         else ''Break Timer complete''] \<and>
    getState (dispatch ev now w) = getState (dispatch (Alarm ALARM_ID) e w) \<and>
    notifications (dispatch ev now w) = notifications (dispatch (Alarm ALARM_ID) e w)"
proof -
  have same: "getState (dispatch ev now w) = getState (handlePhaseCompletion w) \<and>
      notifications (dispatch ev now w) = notifications (handlePhaseCompletion w)"
    using assms(6) initialize_overdue [OF assms(1,3,4,5)]
      handleAlarm_heartbeat_overdue [OF assms(1,3,4,5)]
      handleAlarm_phaseEnd_overdue [OF assms(1,3,4,5)]
    by auto
  have on_time: "dispatch (Alarm ALARM_ID) e w = handlePhaseCompletion w"
    using handleAlarm_phaseEnd_overdue [OF assms(1,3,4), of e] by simp
  show ?thesis
  proof (cases "phase (getState w) = RUNNING_A")
    case True
    with same on_time handlePhaseCompletion_focus [OF assms(2)] show ?thesis by simp
  next
    case False
    with assms(1) have "phase (getState w) = RUNNING_B" by simp
    with same on_time handlePhaseCompletion_break [OF assms(2)] show ?thesis by simp
  qed
qed

theorem reentry_completes_overdue_phase_witness:
  "getState (dispatch Initialize 70000 running_focus_world) =
     \<lparr>phase = WAITING_A, endTimestamp = Null, paused = Undefined,
       remainingSeconds = Undefined\<rparr> \<and>
   notifications (dispatch Initialize 70000 running_focus_world) = [''Focus Timer complete''] \<and>
   getState (dispatch (Alarm HEARTBEAT_ALARM_ID) 70000 running_break_world) = DEFAULT_STATE \<and>
   notifications (dispatch (Alarm HEARTBEAT_ALARM_ID) 70000 running_break_world) =
     [''Break Timer complete'']"
  using reentry_completes_overdue_phase [of running_focus_world 61000 70000 Initialize]
    reentry_completes_overdue_phase
      [of running_break_world 61000 70000 "Alarm HEARTBEAT_ALARM_ID"]
  by simp

text \<open>
  \<^bold>\<open>C2.\<close> In a paused state (phase \<open>RUNNING_A\<close> or \<open>RUNNING_B\<close> with \<open>paused\<close> set), whatever
  \<open>endTimestamp\<close> holds, no event other than a \<open>resume\<close> or a \<open>cancel\<close> message changes the
  stored state or issues a notification: not the \<open>phaseEnd\<close> alarm, not the heartbeat, not
  the initialisation, not a click on the notification button, not any other message.
  The completion handler itself returns the world unchanged.
\<close>

theorem paused_never_completes:
  assumes "phase (getState w) = RUNNING_A \<or> phase (getState w) = RUNNING_B"
    and "truthy_bool (paused (getState w))"
    and "\<forall>m. ev = Message m \<longrightarrow> msg_type m \<noteq> ''resume'' \<and> msg_type m \<noteq> ''cancel''"
  shows "getState (dispatch ev now w) = getState w \<and>
    notifications (dispatch ev now w) = notifications w \<and>
    handlePhaseCompletion w = w"
proof (cases ev)
  case (Message m)
  with assms(3) have "msg_type m \<noteq> ''resume''" and "msg_type m \<noteq> ''cancel''" by auto
  with assms(1,2) have "onMessage m now w = (w, snd (onMessage m now w))"
    by (auto simp add: onMessage_def onStart_not_idle onPause_paused)
  then have "fst (onMessage m now w) = w" by (metis fst_conv)
  with Message assms(2) show ?thesis by (simp add: handlePhaseCompletion_paused)
next
  case (Alarm name)
  with assms(2) show ?thesis
    by (simp add: handleAlarm_paused handlePhaseCompletion_paused)
next
  case (ButtonClicked i)
  with assms(1,2) show ?thesis
    by (auto simp add: onButtonClicked_def handlePhaseCompletion_paused)
next
  case Initialize
  with assms(2) show ?thesis
    by (simp add: initialize_paused handlePhaseCompletion_paused)
qed

text \<open>An instance with a stale \<open>endTimestamp\<close> that has already passed.\<close>

theorem paused_never_completes_witness:
  "truthy_bool (paused (getState paused_stale_world)) \<and>
   overdue (endTimestamp (getState paused_stale_world)) 70000 \<and>
   getState (dispatch (Alarm ALARM_ID) 70000 paused_stale_world) =
     \<lparr>phase = RUNNING_A, endTimestamp = Val 61000, paused = Val True,
       remainingSeconds = Val 30\<rparr> \<and>
   notifications (dispatch (Alarm ALARM_ID) 70000 paused_stale_world) = []"
  using paused_never_completes [of paused_stale_world "Alarm ALARM_ID" 70000]
  by simp




text \<open>
  \<^bold>\<open>C4\<close> (as amended). From \<open>WAITING_A\<close> an \<open>ackA\<close> message starts the break once and is
  answered \<open>Ok\<close>. A second \<open>ackA\<close> leaves the whole world unchanged, and the listener
  answers it with the error \<open>Invalid state.\<close>; a second click on the notification button
  changes nothing and has no answer.
\<close>

theorem duplicate_acknowledge_is_rejected_without_change:
  assumes "phase (getState w) = WAITING_A"
  shows "onMessage (msg ''ackA'') t1 w = (startTimerB t1 w, Ok) \<and>
    getState (startTimerB t1 w) =
      \<lparr>phase = RUNNING_B,
        endTimestamp =
          storage_value (js_plus t1 (js_times (durationBSeconds (getConfig w)) 1000)),
        paused = Val False, remainingSeconds = Null\<rparr> \<and>
    onMessage (msg ''ackA'') t2 (startTimerB t1 w) = (startTimerB t1 w, Error ''Invalid state.'') \<and>
    onButtonClicked i t2 (startTimerB t1 w) = startTimerB t1 w"
  using assms by (simp add: onButtonClicked_def)

theorem duplicate_acknowledge_witness:
  "phase (getState waiting_world) = WAITING_A \<and>
   onMessage (msg ''ackA'') 1000 waiting_world = (startTimerB 1000 waiting_world, Ok) \<and>
   getState (startTimerB 1000 waiting_world) =
      \<lparr>phase = RUNNING_B, endTimestamp = Val 61000, paused = Val False,
        remainingSeconds = Null\<rparr> \<and>
   onMessage (msg ''ackA'') 2000 (startTimerB 1000 waiting_world) =
     (startTimerB 1000 waiting_world, Error ''Invalid state.'') \<and>
   onButtonClicked 0 2000 (startTimerB 1000 waiting_world) = startTimerB 1000 waiting_world"
proof -
  have h: "phase (getState waiting_world) = WAITING_A"
    by (simp add: waiting_world_def fresh_def getState_def)
  have c: "durationBSeconds (getConfig waiting_world) = 60"
    by (simp add: waiting_world_def fresh_def getConfig_def DEFAULT_CONFIG_def)
  have e: "js_plus 1000 (js_times 60 1000) = Finite 61000"
    by (simp add: js_times_def fl_exact)
  show ?thesis
    using h c e duplicate_acknowledge_is_rejected_without_change [OF h, of 1000 2000 0]
    by simp
qed

text \<open>
  The claim as stated asks for the duplicate to pass without an error; the answer to the
  second \<open>ackA\<close> is an error.
\<close>

theorem duplicate_acknowledge_counterexample:
  "phase (getState waiting_world) = WAITING_A \<and>
   snd (onMessage (msg ''ackA'') 2000 (fst (onMessage (msg ''ackA'') 1000 waiting_world))) =
     Error ''Invalid state.'' \<and>
   \<not> ok (snd (onMessage (msg ''ackA'') 2000 (fst (onMessage (msg ''ackA'') 1000 waiting_world))))"
proof -
  have "phase (getState waiting_world) = WAITING_A"
    by (simp add: waiting_world_def fresh_def getState_def)
  then show ?thesis by simp
qed

text \<open>
  \<^bold>\<open>C5.\<close> Whenever the listener answers with \<open>ok = false\<close>, the answer carries a reason and
  the world is the one before the message. In particular: \<open>start\<close> outside \<open>IDLE\<close> is
  answered \<open>Timer already running.\<close>, whatever the durations; \<open>start\<close> in \<open>IDLE\<close> with a
  missing config, a duration that is not a finite number or a duration below one (so every
  non-positive one) is answered \<open>Invalid durations.\<close>; \<open>pause\<close> and \<open>resume\<close> whose guard
  fails are answered \<open>Nothing to pause.\<close> and \<open>Nothing to resume.\<close>.
\<close>

theorem rejections_are_structured_and_change_nothing:
  "(\<not> ok (snd (onMessage m now w)) \<longrightarrow>
      fst (onMessage m now w) = w \<and> (\<exists>reason. snd (onMessage m now w) = Error reason)) \<and>
   (phase (getState w1) \<noteq> IDLE \<longrightarrow>
      onMessage \<lparr>msg_type = ''start'', msg_config = mc1\<rparr> now w1 =
        (w1, Error ''Timer already running.'')) \<and>
   (phase (getState w2) = IDLE \<and>
    (mc2 = None \<or> (\<exists>c. mc2 = Some c \<and>
          (\<not> Number_isFinite (msg_durationASeconds c) \<or>
           \<not> Number_isFinite (msg_durationBSeconds c) \<or>
           (\<exists>a. msg_durationASeconds c = JNumber (Finite a) \<and> a < 1) \<or>
           (\<exists>b. msg_durationBSeconds c = JNumber (Finite b) \<and> b < 1)))) \<longrightarrow>
      onMessage \<lparr>msg_type = ''start'', msg_config = mc2\<rparr> now w2 =
        (w2, Error ''Invalid durations.'')) \<and>
   (\<not> ((phase (getState w3) = RUNNING_A \<or> phase (getState w3) = RUNNING_B) \<and>
        truthy_num (endTimestamp (getState w3)) \<and> \<not> truthy_bool (paused (getState w3))) \<longrightarrow>
      onMessage (msg ''pause'') now w3 = (w3, Error ''Nothing to pause.'')) \<and>
   (\<not> (truthy_bool (paused (getState w4)) \<and>
        (phase (getState w4) = RUNNING_A \<or> phase (getState w4) = RUNNING_B) \<and>
        truthy_num (remainingSeconds (getState w4))) \<longrightarrow>
      onMessage (msg ''resume'') now w4 = (w4, Error ''Nothing to resume.''))"
proof -
  have "\<not> ok r \<Longrightarrow> \<exists>reason. r = Error reason" for r
    by (cases r) simp_all
  moreover have "onMessage \<lparr>msg_type = ''start'', msg_config = mc\<rparr> t v = onStart mc t v"
    for mc t v
    by (simp add: onMessage_def)
  ultimately show ?thesis
    using onStart_invalid [of w2 mc2 now]
    by (simp add: onMessage_rejected_unchanged onStart_not_idle onPause_rejected
        onResume_rejected)
qed

theorem rejections_are_structured_and_change_nothing_witness:
  "\<not> ok (snd (onMessage (msg ''ackA'') 5 fresh)) \<and>
   fst (onMessage (msg ''ackA'') 5 fresh) = fresh \<and>
   phase (getState running_focus_world) \<noteq> IDLE \<and>
   onMessage (start (JNumber (Finite 60)) (JNumber (Finite 60))) 5 running_focus_world =
     (running_focus_world, Error ''Timer already running.'') \<and>
   phase (getState fresh) = IDLE \<and>
   onMessage (start (JNumber (Finite 0)) (JNumber Infinity)) 5 fresh =
     (fresh, Error ''Invalid durations.'') \<and>
   onMessage (msg ''pause'') 5 fresh = (fresh, Error ''Nothing to pause.'') \<and>
   onMessage (msg ''resume'') 5 running_focus_world =
     (running_focus_world, Error ''Nothing to resume.'')"
  using rejections_are_structured_and_change_nothing
    [of "msg ''ackA''" 5 fresh running_focus_world
        "Some \<lparr>msg_durationASeconds = JNumber (Finite 60),
                msg_durationBSeconds = JNumber (Finite 60)\<rparr>"
        fresh
        "Some \<lparr>msg_durationASeconds = JNumber (Finite 0),
                msg_durationBSeconds = JNumber Infinity\<rparr>"
        fresh running_focus_world]
  by (simp add: start_def DEFAULT_STATE_def)







text \<open>
  \<^bold>\<open>C8.\<close> \<open>cancel\<close> is answered \<open>Ok\<close> from any world and leaves the idle default state, with
  \<open>endTimestamp\<close> and \<open>remainingSeconds\<close> null and the \<open>phaseEnd\<close> alarm cleared. Any alarm
  that fires afterwards, at any time, and the completion handler itself, find \<open>IDLE\<close>
  and return the world as it is: no transition, no notification.
\<close>

theorem cancel_wins:
  "onMessage (msg ''cancel'') now w = (resetToIdle w, Ok) \<and>
   getState (resetToIdle w) =
     \<lparr>phase = IDLE, endTimestamp = Null, paused = Val False, remainingSeconds = Null\<rparr> \<and>
   phaseEnd_alarm (resetToIdle w) = None \<and>
   notifications (resetToIdle w) = notifications w \<and>
   handleAlarm name later (resetToIdle w) = resetToIdle w \<and>
   handlePhaseCompletion (resetToIdle w) = resetToIdle w"
proof -
  have "phaseEnd_alarm (resetToIdle w) = None"
    by (simp add: resetToIdle_def updateState_def clearAlarm_def)
  moreover have "getState (resetToIdle w) =
     \<lparr>phase = IDLE, endTimestamp = Null, paused = Val False, remainingSeconds = Null\<rparr>"
    by (simp add: DEFAULT_STATE_def)
  ultimately show ?thesis
    by (simp add: resetToIdle_stays)
qed

text \<open>
  The scenario of the specification: start with 60 and 60 seconds, cancel after 30 seconds,
  the alarm fires at 60 seconds.
\<close>

theorem cancel_wins_witness:
  "getState (run [(Message (start (JNumber (Finite 60)) (JNumber (Finite 60))), 0),
                  (Message (msg ''cancel''), 30000),
                  (Alarm ALARM_ID, 60000)] fresh) = DEFAULT_STATE \<and>
   notifications (run [(Message (start (JNumber (Finite 60)) (JNumber (Finite 60))), 0),
                  (Message (msg ''cancel''), 30000),
                  (Alarm ALARM_ID, 60000)] fresh) = []"
  using cancel_wins [of 30000
      "fst (onMessage (start (JNumber (Finite 60)) (JNumber (Finite 60))) 0 fresh)"
      ALARM_ID 60000]
  by (simp add: onStart_def DEFAULT_STATE_def startTimerA_def)

text \<open>
  \<^bold>\<open>C9.\<close> In phase \<open>IDLE\<close>, when the focus input parses to 333 and the break input passes
  \<^verbatim>\<open>clampMinutes\<close>, the start button sends a \<open>start\<close> message whose focus duration is 5
  seconds, which is not the 19980 seconds that 333 minutes convert to, and whose break
  duration is the converted break input; a break input of 333 is sent as 19980 seconds.
\<close>

theorem sentinel_333_maps_focus_to_five_seconds:
  assumes "phase currentState = IDLE"
    and "parseFloat timerA = Finite 333"
    and "clampMinutes parseFloat timerB = Some b"
  shows "startBtn_click parseFloat currentState timerA timerB =
      Sent (start (JNumber (Finite 5)) (JNumber (minutesToSeconds b))) \<and>
    Finite 5 \<noteq> minutesToSeconds (Finite 333) \<and>
    (parseFloat timerB = Finite 333 \<longrightarrow> minutesToSeconds b = Finite 19980)"
proof -
  from assms(2) have a: "clampMinutes parseFloat timerA = Some (Finite 333)"
    by (simp add: clampMinutes_def)
  from assms(3) have "\<not> falsy b" by (rule clampMinutes_truthy)
  with assms(1,3) a have "startBtn_click parseFloat currentState timerA timerB =
      Sent (start (JNumber (Finite 5)) (JNumber (minutesToSeconds b)))"
    by (simp add: startBtn_click_def)
  moreover have "minutesToSeconds b = Finite 19980" if "parseFloat timerB = Finite 333"
  proof -
    from that have "clampMinutes parseFloat timerB = Some (Finite 333)"
      by (simp add: clampMinutes_def)
    with assms(3) have "b = Finite 333" by simp
    then show ?thesis by (simp only: minutesToSeconds_333)
  qed
  ultimately show ?thesis by (simp add: minutesToSeconds_333 del: minutesToSeconds.simps)
qed

theorem sentinel_333_maps_focus_to_five_seconds_witness:
  "phase DEFAULT_STATE = IDLE \<and> example_parseFloat ''333'' = Finite 333 \<and>
   clampMinutes example_parseFloat ''25'' = Some (Finite 25) \<and>
   clampMinutes example_parseFloat ''333'' = Some (Finite 333) \<and>
   startBtn_click example_parseFloat DEFAULT_STATE ''333'' ''25'' =
     Sent (start (JNumber (Finite 5)) (JNumber (Finite 1500))) \<and>
   startBtn_click example_parseFloat DEFAULT_STATE ''333'' ''333'' =
     Sent (start (JNumber (Finite 5)) (JNumber (Finite 19980)))"
proof -
  have i: "phase DEFAULT_STATE = IDLE" by (simp add: DEFAULT_STATE_def)
  have a: "example_parseFloat ''333'' = Finite 333" by (simp add: example_parseFloat_def)
  have b: "clampMinutes example_parseFloat ''25'' = Some (Finite 25)"
    by (simp add: clampMinutes_def example_parseFloat_def)
  have c: "clampMinutes example_parseFloat ''333'' = Some (Finite 333)"
    by (simp add: clampMinutes_def example_parseFloat_def)
  have m: "minutesToSeconds (Finite 25) = Finite 1500" by (rule minutesToSeconds_25)
  show ?thesis
    using i a b c m sentinel_333_maps_focus_to_five_seconds [OF i a b]
      sentinel_333_maps_focus_to_five_seconds [OF i a c]
    by (simp del: minutesToSeconds.simps)
qed

text \<open>
  \<^bold>\<open>C10.\<close> \<open>pause\<close> on a running, not paused phase whose end timestamp has passed is
  answered \<open>Ok\<close>, stores \<open>remainingSeconds = 1\<close> with the phase unchanged and paused, and
  issues no notification; a later \<open>resume\<close> at any time \<open>later\<close> is answered \<open>Ok\<close> and puts
  the end timestamp one second after \<open>later\<close>, the phase still running.
\<close>

theorem pause_preempts_overdue_completion:
  assumes "phase (getState w) = RUNNING_A \<or> phase (getState w) = RUNNING_B"
    and "\<not> truthy_bool (paused (getState w))"
    and "endTimestamp (getState w) = Val e" and "e \<noteq> 0" and "e \<le> now"
  shows "snd (onMessage (msg ''pause'') now w) = Ok \<and>
    getState (fst (onMessage (msg ''pause'') now w)) =
      (getState w)\<lparr>paused := Val True, remainingSeconds := Val 1, endTimestamp := Null\<rparr> \<and>
    notifications (fst (onMessage (msg ''pause'') now w)) = notifications w \<and>
    snd (onMessage (msg ''resume'') later (fst (onMessage (msg ''pause'') now w))) = Ok \<and>
    getState (fst (onMessage (msg ''resume'') later (fst (onMessage (msg ''pause'') now w)))) =
      (getState w)\<lparr>paused := Val False, endTimestamp := Val (later + 1000),
        remainingSeconds := Null\<rparr>"
proof -
  from \<open>e \<le> now\<close> have "(e - now) / 1000 \<le> 0" by simp
  then have r: "max (1::real) (of_int \<lceil>(e - now) / 1000\<rceil>) = 1"
    by (rule captured_remaining_overdue)
  let ?p = "updateState ((getState w)\<lparr>paused := Val True, remainingSeconds := Val 1,
      endTimestamp := Null\<rparr>) (clearAlarm w)"
  have p: "onPause now w = (?p, Ok)"
    using onPause_running [OF assms(1-4), of now] r by simp
  have "onResume later ?p =
     (ensureHeartbeatAlarm (scheduleAlarm (Finite (later + 1 * 1000)) (updateState
        ((getState ?p)\<lparr>paused := Val False, endTimestamp := Val (later + 1 * 1000),
           remainingSeconds := Null\<rparr>) ?p)), Ok)"
    using assms(1) by (intro onResume_paused) auto
  with p show ?thesis by simp
qed

theorem pause_preempts_overdue_completion_witness:
  "snd (onMessage (msg ''pause'') 70000 running_focus_world) = Ok \<and>
   getState (fst (onMessage (msg ''pause'') 70000 running_focus_world)) =
     \<lparr>phase = RUNNING_A, endTimestamp = Null, paused = Val True,
       remainingSeconds = Val 1\<rparr> \<and>
   getState (fst (onMessage (msg ''resume'') 80000
       (fst (onMessage (msg ''pause'') 70000 running_focus_world)))) =
     \<lparr>phase = RUNNING_A, endTimestamp = Val 81000, paused = Val False,
       remainingSeconds = Null\<rparr>"
  using pause_preempts_overdue_completion [of running_focus_world 61000 70000 80000]
  by simp

end